theory Spec2Isabelle
  imports Complex_Main
begin

section \<open>Errors and array helpers\<close>

text \<open>
  The Python exceptions the modelled code can raise. Numbers are modelled as mathematical
  reals: one-dimensional arrays are \<open>real list\<close>, two-dimensional arrays are lists of
  rows (\<open>real list list\<close>).
\<close>

datatype error =
    ValueError string
  | TypeError string
  | IndexError
  | AttributeError string
  | NotInitialized string

text \<open>
  Elementwise binary operation on two one-dimensional arrays with the array library's
  broadcasting rule: equal lengths combine pointwise, a length-one operand is
  stretched, anything else raises.
\<close>

definition bcast2 :: "('a \<Rightarrow> 'b \<Rightarrow> 'c) \<Rightarrow> 'a list \<Rightarrow> 'b list \<Rightarrow> error + 'c list" where
  "bcast2 f xs ys =
     (if length xs = length ys then Inr (map2 f xs ys)
      else if length xs = 1 then Inr (map (f (hd xs)) ys)
      else if length ys = 1 then Inr (map (\<lambda>x. f x (hd ys)) xs)
      else Inl (ValueError ''operands could not be broadcast together''))"

text \<open>\<open>backend.sum(r**2, axis=1)\<close>: the squared norm of every row.\<close>

definition sum_sq_axis1 :: "real list list \<Rightarrow> real list" where
  "sum_sq_axis1 r = map (\<lambda>row. sum_list (map (\<lambda>x. x ^ 2) row)) r"

text \<open>
  \<open>r.reshape(-1, d)\<close>: the flattened data is cut into rows of \<open>d\<close> entries; the row
  count is inferred, and the call raises when it cannot be.
\<close>

fun chunks :: "nat \<Rightarrow> nat \<Rightarrow> 'a list \<Rightarrow> 'a list list" where
  "chunks 0 d xs = []"
| "chunks (Suc n) d xs = take d xs # chunks n d (drop d xs)"

definition reshape_rows :: "nat \<Rightarrow> real list list \<Rightarrow> error + real list list" where
  "reshape_rows d r =
     (let flat = concat r in
      if d = 0 then Inl (ValueError ''cannot reshape array'')
      else if length flat mod d = 0 then Inr (chunks (length flat div d) d flat)
      else Inl (ValueError ''cannot reshape array''))"

section \<open>The wavefunction model (qs/models/vmc.py)\<close>

text \<open>
  \<open>VMC.wf_closure\<close>: \<open>-alpha * backend.sum(r**2, axis=1)\<close>. The parameter is the
  one-dimensional array stored by the model (\<open>jnp.array([alpha])\<close>).
\<close>

definition wf_closure :: "real list list \<Rightarrow> real list \<Rightarrow> error + real list" where
  "wf_closure r alpha = bcast2 (*) (map uminus alpha) (sum_sq_axis1 r)"

text \<open>\<open>VMC.prob_closure\<close>: \<open>log_psi = self.wf_closure(r, alpha); return 2 * log_psi\<close>.\<close>

definition prob_closure :: "real list list \<Rightarrow> real list \<Rightarrow> error + real list" where
  "prob_closure r alpha =
     (case wf_closure r alpha of
        Inl e \<Rightarrow> Inl e
      | Inr log_psi \<Rightarrow> Inr (map (\<lambda>x. 2 * x) log_psi))"

text \<open>
  \<open>VMC.laplacian_closure\<close>, with \<open>ndim\<close> the model's \<open>self._dim\<close>:
  reshape to rows of \<open>ndim\<close> entries, \<open>d = r.shape[1]\<close>, \<open>r2 = sum(r**2, axis=1)\<close>,
  \<open>4 * alpha**2 * r2 - 2 * alpha * d\<close>, then the sum of all entries.
\<close>

definition laplacian_closure :: "nat \<Rightarrow> real list list \<Rightarrow> real list \<Rightarrow> error + real" where
  "laplacian_closure ndim r alpha =
     (case reshape_rows ndim r of
        Inl e \<Rightarrow> Inl e
      | Inr r' \<Rightarrow>
          (let d = ndim; r2 = sum_sq_axis1 r' in
           case bcast2 (*) (map (\<lambda>a. 4 * a ^ 2) alpha) r2 of
             Inl e \<Rightarrow> Inl e
           | Inr t1 \<Rightarrow>
               (case bcast2 (-) t1 (map (\<lambda>a. 2 * a * real d) alpha) of
                  Inl e \<Rightarrow> Inl e
                | Inr lap \<Rightarrow> Inr (sum_list lap))))"

section \<open>The Metropolis sampler (samplers/metropolis.py)\<close>

text \<open>
  A log-probability array is one-dimensional when the looped accept function fills it
  and two-dimensional when \<open>jnp.where\<close> broadcasts the column mask against it.
\<close>

datatype ndarr = Arr1 "real list" | Arr2 "real list list"

text \<open>The chain state \<open>State(positions, logp, n_accepted, delta)\<close>.\<close>

record State =
  positions :: "real list list"
  logp :: ndarr
  n_accepted :: int
  delta :: int

text \<open>
  The random-number library the sampler calls, taken as a parameter:
  \<open>advance_PRNG_state(seed, delta)\<close> gives the key of the step, \<open>rng.normal(loc, scale)\<close>
  and \<open>rng.random(n)\<close> draw from a generator and advance it.
\<close>

record ('k, 'g) rng_lib =
  advance_PRNG_state :: "int \<Rightarrow> int \<Rightarrow> 'k"
  rng_normal :: "'g \<Rightarrow> real list list \<Rightarrow> real \<Rightarrow> real list list \<times> 'g"
  rng_random :: "'g \<Rightarrow> nat \<Rightarrow> real list \<times> 'g"

datatype accept_impl = AcceptNumpy | AcceptJax

text \<open>
  The sampler object: \<open>self._rng\<close> (a generator constructor), \<open>self.scale\<close>,
  \<open>self._backend\<close> and \<open>self.accept_fn\<close>, which stays unset (\<open>None\<close>) when the
  constructor's dispatch matched no backend.
\<close>

record ('k, 'g) Metropolis =
  m_seed :: int
  m_N :: nat
  m_dim :: nat
  m_rng :: "'k \<Rightarrow> 'g"
  m_scale :: real
  m_backend :: string
  accept_fn :: "accept_impl option"

text \<open>
  The backend dispatch of \<open>Metropolis.__init__\<close> on \<open>self._backend\<close>: the accept
  function for \<open>numpy\<close> and for \<open>jax\<close>; the last branch prints a message and
  returns normally, so \<open>accept_fn\<close> stays unset.
\<close>

definition Metropolis_dispatch :: "string \<Rightarrow> accept_impl option" where
  "Metropolis_dispatch b =
     (if b = ''numpy'' then Some AcceptNumpy
      else if b = ''jax'' then Some AcceptJax
      else None)"

text \<open>
  \<open>Metropolis.__init__\<close>. The base class constructor \<open>Sampler.__init__(rng, scale,
  logger, backend)\<close> is not among the source files and is taken as the parameter
  \<open>Sampler_init\<close>: it returns the name it stores in \<open>self._backend\<close>, or raises.
\<close>

definition Metropolis_init ::
  "(string \<Rightarrow> error + string) \<Rightarrow> ('k \<Rightarrow> 'g) \<Rightarrow> real \<Rightarrow> nat \<Rightarrow> nat \<Rightarrow> int \<Rightarrow> string \<Rightarrow>
     error + ('k, 'g) Metropolis" where
  "Metropolis_init Sampler_init rng scale n_particles ndim seed backend =
     (case Sampler_init backend of
        Inl e \<Rightarrow> Inl e
      | Inr b \<Rightarrow>
          Inr \<lparr>m_seed = seed, m_N = n_particles, m_dim = ndim, m_rng = rng, m_scale = scale,
               m_backend = b, accept_fn = Metropolis_dispatch b\<rparr>)"

text \<open>\<open>backend.zeros_like\<close> on a two- and a one-dimensional array.\<close>

definition zeros_like2 :: "real list list \<Rightarrow> real list list" where
  "zeros_like2 r = map (map (\<lambda>x. 0)) r"

definition zeros_like1 :: "real list \<Rightarrow> real list" where
  "zeros_like1 v = map (\<lambda>x. 0) v"

text \<open>
  Assigning a row into a row of an existing array, \<open>new_positions[i] = src\<close>: the
  source must have the width of the destination or a single entry, which is then
  repeated; any other width raises.
\<close>

definition assign_row :: "real list \<Rightarrow> real list \<Rightarrow> error + real list" where
  "assign_row dst src =
     (if length src = length dst then Inr src
      else if length src = 1 then Inr (map (\<lambda>x. hd src) dst)
      else Inl (ValueError ''could not broadcast input array''))"

text \<open>
  One pass of the loop body of \<open>accept_numpy\<close> at index \<open>i\<close>. The mask is the
  \<open>(N, 1)\<close> column, held as the list of its entries. Reading a row or an entry past
  the end of an array raises \<open>IndexError\<close>.
\<close>

definition accept_numpy_body ::
  "bool list \<Rightarrow> real list list \<Rightarrow> real list list \<Rightarrow> real list \<Rightarrow> real list \<Rightarrow> nat \<Rightarrow>
     real list list \<times> real list \<times> int \<Rightarrow> error + real list list \<times> real list \<times> int" where
  "accept_numpy_body accept initial_positions proposed_positions log_psi_current
       log_psi_proposed i acc =
     (case acc of (new_positions, new_logp, n) \<Rightarrow>
        if length accept \<le> i then Inl IndexError
        else if accept ! i then
          (if length proposed_positions \<le> i then Inl IndexError
           else
             (case assign_row (new_positions ! i) (proposed_positions ! i) of
                Inl e \<Rightarrow> Inl e
              | Inr row \<Rightarrow>
                  if length log_psi_proposed \<le> i then Inl IndexError
                  else if length new_logp \<le> i then Inl IndexError
                  else Inr (new_positions[i := row],
                            new_logp[i := log_psi_proposed ! i], n + 1)))
        else
          (case assign_row (new_positions ! i) (initial_positions ! i) of
             Inl e \<Rightarrow> Inl e
           | Inr row \<Rightarrow>
               if length log_psi_current \<le> i then Inl IndexError
               else Inr (new_positions[i := row],
                         new_logp[i := log_psi_current ! i], n)))"

fun accept_numpy_loop ::
  "bool list \<Rightarrow> real list list \<Rightarrow> real list list \<Rightarrow> real list \<Rightarrow> real list \<Rightarrow> nat list \<Rightarrow>
     real list list \<times> real list \<times> int \<Rightarrow> error + real list list \<times> real list \<times> int" where
  "accept_numpy_loop a ip pp lc lp [] acc = Inr acc"
| "accept_numpy_loop a ip pp lc lp (i # is) acc =
     (case accept_numpy_body a ip pp lc lp i acc of
        Inl e \<Rightarrow> Inl e
      | Inr acc' \<Rightarrow> accept_numpy_loop a ip pp lc lp is acc')"

text \<open>\<open>Metropolis.accept_numpy\<close>: the loop over \<open>range(initial_positions.shape[0])\<close>.\<close>

definition accept_numpy ::
  "int \<Rightarrow> bool list \<Rightarrow> real list list \<Rightarrow> real list list \<Rightarrow> real list \<Rightarrow> real list \<Rightarrow>
     error + real list list \<times> ndarr \<times> int" where
  "accept_numpy n_acc accept initial_positions proposed_positions log_psi_current
       log_psi_proposed =
     (case accept_numpy_loop accept initial_positions proposed_positions log_psi_current
             log_psi_proposed [0..<length initial_positions]
             (zeros_like2 initial_positions, zeros_like1 log_psi_current, n_acc) of
        Inl e \<Rightarrow> Inl e
      | Inr (new_positions, new_logp, n) \<Rightarrow> Inr (new_positions, Arr1 new_logp, n))"

text \<open>
  \<open>jnp.matmul\<close> of a \<open>(1, N)\<close> row with an \<open>(N, D)\<close> matrix: the \<open>(1, D)\<close> row of
  weighted column sums. The column count is read off the first row, so the model covers
  matrices with at least one row.
\<close>

definition ncols :: "real list list \<Rightarrow> nat" where
  "ncols M = (case M of [] \<Rightarrow> 0 | row # rest \<Rightarrow> length row)"

definition matmul_row :: "real list \<Rightarrow> real list list \<Rightarrow> error + real list" where
  "matmul_row a M =
     (if length a = length M
      then Inr (map (\<lambda>d. sum_list (map2 (\<lambda>x row. x * row ! d) a M)) [0..<ncols M])
      else Inl (TypeError ''matmul: incompatible shapes''))"

text \<open>
  \<open>Metropolis.accept_jax\<close>: \<open>support1 = matmul(accept.T, proposed_positions)\<close>,
  \<open>support2 = matmul(1 - accept.T, initial_positions)\<close>, their sum as the new
  positions, \<open>jnp.sum(accept)\<close> as the count and \<open>jnp.where(accept, log_psi_proposed,
  log_psi_current)\<close> with the \<open>(N, 1)\<close> mask broadcast against the two arrays. The
  argument \<open>n_accepted\<close> is overwritten, not read. Adding two rows of widths
  that do not broadcast raises \<open>TypeError\<close> in this library.
\<close>

definition accept_jax ::
  "int \<Rightarrow> bool list \<Rightarrow> real list list \<Rightarrow> real list list \<Rightarrow> real list \<Rightarrow> real list \<Rightarrow>
     error + real list list \<times> ndarr \<times> int" where
  "accept_jax n_acc accept initial_positions proposed_positions log_psi_current
       log_psi_proposed =
     (case matmul_row (map of_bool accept) proposed_positions of
        Inl e \<Rightarrow> Inl e
      | Inr support1 \<Rightarrow>
     (case matmul_row (map (\<lambda>b. 1 - of_bool b) accept) initial_positions of
        Inl e \<Rightarrow> Inl e
      | Inr support2 \<Rightarrow>
     (case bcast2 (+) support1 support2 of
        Inl e \<Rightarrow> Inl (TypeError ''add got incompatible shapes for broadcasting'')
      | Inr row \<Rightarrow>
     (case bcast2 Pair log_psi_proposed log_psi_current of
        Inl e \<Rightarrow> Inl e
      | Inr pcs \<Rightarrow>
          Inr ([row],
               Arr2 (map (\<lambda>b. map (\<lambda>(p, c). if b then p else c) pcs) accept),
               int (length (filter id accept)))))))"

definition run_accept ::
  "accept_impl \<Rightarrow> int \<Rightarrow> bool list \<Rightarrow> real list list \<Rightarrow> real list list \<Rightarrow> real list \<Rightarrow>
     real list \<Rightarrow> error + real list list \<times> ndarr \<times> int" where
  "run_accept f = (case f of AcceptNumpy \<Rightarrow> accept_numpy | AcceptJax \<Rightarrow> accept_jax)"

text \<open>
  The first half of \<open>Metropolis.step\<close>: the generator of the step is built from
  \<open>advance_PRNG_state(seed, state.delta)\<close>, the proposal is drawn around the current
  positions, both log-probabilities are evaluated, and the mask is
  \<open>rng.random(N) < exp(prob_proposed - prob_current)\<close>. It returns the proposal, the
  two log-probability arrays and the mask.
\<close>

definition step_draws ::
  "('k, 'g) rng_lib \<Rightarrow> ('k, 'g) Metropolis \<Rightarrow> (real list list \<Rightarrow> error + real list) \<Rightarrow>
     State \<Rightarrow> int \<Rightarrow> error + real list list \<times> real list \<times> real list \<times> bool list" where
  "step_draws lib self wf_squared state seed =
     (let initial_positions = positions state;
          next_gen = advance_PRNG_state lib seed (delta state);
          rng = m_rng self next_gen;
          drawn = rng_normal lib rng initial_positions (m_scale self);
          proposed_positions = fst drawn
      in case wf_squared initial_positions of
           Inl e \<Rightarrow> Inl e
         | Inr prob_current \<Rightarrow>
        (case wf_squared proposed_positions of
           Inl e \<Rightarrow> Inl e
         | Inr prob_proposed \<Rightarrow>
        (case bcast2 (-) prob_proposed prob_current of
           Inl e \<Rightarrow> Inl e
         | Inr log_accept_prob \<Rightarrow>
        (case bcast2 (<) (fst (rng_random lib (snd drawn) (length initial_positions)))
                (map exp log_accept_prob) of
           Inl e \<Rightarrow> Inl e
         | Inr accept \<Rightarrow> Inr (proposed_positions, prob_current, prob_proposed, accept)))))"

text \<open>
  \<open>Metropolis.step\<close>: the draws, then \<open>self.accept_fn\<close> (an \<open>AttributeError\<close> when
  the constructor left it unset), then the new state with \<open>delta + 1\<close>.
\<close>

definition step ::
  "('k, 'g) rng_lib \<Rightarrow> ('k, 'g) Metropolis \<Rightarrow> int \<Rightarrow> (real list list \<Rightarrow> error + real list) \<Rightarrow>
     State \<Rightarrow> int \<Rightarrow> error + State" where
  "step lib self n_acc wf_squared state seed =
     (case step_draws lib self wf_squared state seed of
        Inl e \<Rightarrow> Inl e
      | Inr (proposed_positions, prob_current, prob_proposed, accept) \<Rightarrow>
     (case accept_fn self of
        None \<Rightarrow> Inl (AttributeError ''accept_fn'')
      | Some f \<Rightarrow>
     (case run_accept f n_acc accept (positions state) proposed_positions prob_current
             prob_proposed of
        Inl e \<Rightarrow> Inl e
      | Inr (new_positions, new_logp, n) \<Rightarrow>
          Inr \<lparr>positions = new_positions, logp = new_logp, n_accepted = n,
               delta = delta state + 1\<rparr>)))"

section \<open>The step with the state outside the call made explicit\<close>

text \<open>
  The random-number operations as they may act on state that outlives the call (a
  module-level generator, a generator kept by an object): each takes that shared state
  and returns it, possibly changed. \<open>sh_ctor\<close> is \<open>self._rng\<close>.
\<close>

record ('k, 'g, 'w) shared_rng_lib =
  sh_advance :: "int \<Rightarrow> int \<Rightarrow> 'w \<Rightarrow> 'k \<times> 'w"
  sh_ctor :: "'k \<Rightarrow> 'w \<Rightarrow> 'g \<times> 'w"
  sh_normal :: "'g \<Rightarrow> real list list \<Rightarrow> real \<Rightarrow> 'w \<Rightarrow> (real list list \<times> 'g) \<times> 'w"
  sh_random :: "'g \<Rightarrow> nat \<Rightarrow> 'w \<Rightarrow> (real list \<times> 'g) \<times> 'w"

text \<open>
  \<open>Metropolis.step\<close> once more, statement by statement, threading the shared state
  through the four random-number calls in the order the source makes them. The step
  itself names no generator but the one it builds from \<open>next_gen\<close>.
\<close>

definition step_shared ::
  "('k, 'g, 'w) shared_rng_lib \<Rightarrow> ('k, 'g) Metropolis \<Rightarrow> int \<Rightarrow>
     (real list list \<Rightarrow> error + real list) \<Rightarrow> State \<Rightarrow> int \<Rightarrow> 'w \<Rightarrow> (error + State) \<times> 'w" where
  "step_shared lib self n_acc wf_squared state seed w0 =
     (let initial_positions = positions state;
          keyed = sh_advance lib seed (delta state) w0;
          built = sh_ctor lib (fst keyed) (snd keyed);
          drawn = sh_normal lib (fst built) initial_positions (m_scale self) (snd built);
          proposed_positions = fst (fst drawn);
          w3 = snd drawn
      in case wf_squared initial_positions of
           Inl e \<Rightarrow> (Inl e, w3)
         | Inr prob_current \<Rightarrow>
        (case wf_squared proposed_positions of
           Inl e \<Rightarrow> (Inl e, w3)
         | Inr prob_proposed \<Rightarrow>
        (case bcast2 (-) prob_proposed prob_current of
           Inl e \<Rightarrow> (Inl e, w3)
         | Inr log_accept_prob \<Rightarrow>
        (let uniform = sh_random lib (snd (fst drawn)) (length initial_positions) w3;
             w4 = snd uniform
         in case bcast2 (<) (fst (fst uniform)) (map exp log_accept_prob) of
              Inl e \<Rightarrow> (Inl e, w4)
            | Inr accept \<Rightarrow>
           (case accept_fn self of
              None \<Rightarrow> (Inl (AttributeError ''accept_fn''), w4)
            | Some f \<Rightarrow>
           (case run_accept f n_acc accept initial_positions proposed_positions
                   prob_current prob_proposed of
              Inl e \<Rightarrow> (Inl e, w4)
            | Inr (new_positions, new_logp, n) \<Rightarrow>
                (Inr \<lparr>positions = new_positions, logp = new_logp, n_accepted = n,
                      delta = delta state + 1\<rparr>, w4)))))))"


section \<open>The model object and its autodiff Laplacian (qs/models/vmc.py)\<close>

text \<open>Python truthiness of an optional float argument: \<open>None\<close> and \<open>0.0\<close> are false.\<close>

definition truthy :: "real option \<Rightarrow> bool" where
  "truthy a = (case a of None \<Rightarrow> False | Some x \<Rightarrow> x \<noteq> 0)"

text \<open>\<open>VMC._initialize_variational_params(alpha=None)\<close>: the stored array for \<open>alpha\<close>.\<close>

definition initialize_variational_params :: "real option \<Rightarrow> real list" where
  "initialize_variational_params a =
     (case a of
        None \<Rightarrow> [1 / 2]
      | Some x \<Rightarrow> if x \<noteq> 0 then [x] else [1 / 2])"

text \<open>
  \<open>VMC._configure_backend\<close>. It is the first statement of the constructor, so in the
  last branch the message \<open>f"Backend {self.backend} not supported"\<close> reads an
  attribute that has not been assigned yet, and the \<open>AttributeError\<close> of that read is
  what propagates.
\<close>

definition configure_backend :: "string \<Rightarrow> error + string" where
  "configure_backend backend =
     (if backend = ''numpy'' then Inr ''numpy''
      else if backend = ''jax'' then Inr ''jax''
      else Inl (AttributeError ''backend''))"

record VMC =
  vmc_backend :: string
  params_alpha :: "real list"
  vmc_beta :: "real option"
  vmc_N :: nat
  vmc_dim :: nat
  vmc_state :: State

text \<open>
  \<open>VMC.__init__\<close>: backend, parameters (\<open>if alpha: ... else: ...\<close>), \<open>beta\<close> (set
  only when truthy), then \<open>_initialize_vars\<close>, which stores the initial chain state.
  The seed is an integer, and the matrix drawn from it by
  \<open>random.normal(subkey, (nparticles, dim))\<close> is the argument \<open>initial_positions\<close>.
\<close>

definition VMC_init ::
  "string \<Rightarrow> real option \<Rightarrow> real option \<Rightarrow> nat \<Rightarrow> nat \<Rightarrow> real list list \<Rightarrow> error + VMC" where
  "VMC_init backend alpha beta nparticles ndim initial_positions =
     (case configure_backend backend of
        Inl e \<Rightarrow> Inl e
      | Inr b \<Rightarrow>
          (let params =
                 (if truthy alpha then initialize_variational_params alpha
                  else initialize_variational_params None)
           in case prob_closure initial_positions params of
                Inl e \<Rightarrow> Inl e
              | Inr initial_logp \<Rightarrow>
                  Inr \<lparr>vmc_backend = b, params_alpha = params,
                       vmc_beta = (if truthy beta then beta else None),
                       vmc_N = nparticles, vmc_dim = ndim,
                       vmc_state = \<lparr>positions = initial_positions, logp = Arr1 initial_logp,
                                    n_accepted = 0, delta = 0\<rparr>\<rparr>))"

text \<open>Running a list of fallible results in order, stopping at the first error.\<close>

fun collect :: "(error + 'a) list \<Rightarrow> error + 'a list" where
  "collect [] = Inr []"
| "collect (x # xs) =
     (case x of
        Inl e \<Rightarrow> Inl e
      | Inr v \<Rightarrow> (case collect xs of Inl e \<Rightarrow> Inl e | Inr vs \<Rightarrow> Inr (v # vs)))"

text \<open>\<open>VMC.grad_wf_closure\<close>: \<open>-2 * alpha * r\<close>, broadcast along every row.\<close>

definition grad_wf_closure :: "real list list \<Rightarrow> real list \<Rightarrow> error + real list list" where
  "grad_wf_closure r alpha = collect (map (bcast2 (*) (map (\<lambda>a. - 2 * a) alpha)) r)"

text \<open>\<open>r.reshape(1, d)\<close>: one row holding all the data, which must be \<open>d\<close> entries.\<close>

definition reshape_1_d :: "nat \<Rightarrow> real list list \<Rightarrow> error + real list list" where
  "reshape_1_d d r =
     (if length (concat r) = d then Inr [concat r]
      else Inl (TypeError ''cannot reshape array''))"

definition trace_mat :: "nat \<Rightarrow> real list list \<Rightarrow> real" where
  "trace_mat d H = (\<Sum>i\<leftarrow>[0..<d]. H ! i ! i)"

text \<open>
  \<open>VMC.laplacian_closure_jax\<close>. The differentiation library is a parameter:
  \<open>hessian_psi\<close> stands for \<open>jax.hessian(self.wf)(r).reshape(d, d)\<close> (it
  differentiates \<open>self.wf\<close>, which reads the stored parameter, not the argument
  \<open>alpha\<close>), and \<open>grad_wf\<close> for the gradient closure the backend installed.
\<close>

definition laplacian_closure_jax ::
  "(real list list \<Rightarrow> real list list) \<Rightarrow> (real list list \<Rightarrow> real list \<Rightarrow> error + real list list) \<Rightarrow>
     nat \<Rightarrow> real list list \<Rightarrow> real list \<Rightarrow> error + real" where
  "laplacian_closure_jax hessian_psi grad_wf ndim r alpha =
     (let d = ndim in
      case reshape_1_d d r of
        Inl e \<Rightarrow> Inl e
      | Inr r1 \<Rightarrow>
          (let first_term = trace_mat d (hessian_psi r1) in
           case grad_wf r1 alpha of
             Inl e \<Rightarrow> Inl e
           | Inr g \<Rightarrow> Inr (first_term + sum_list (map (\<lambda>x. x ^ 2) (concat g)))))"

text \<open>
  \<open>VMC.grads_closure\<close> on a batch of configurations (a three-dimensional array):
  \<open>sum(-sum(r**2, axis=2), axis=1)\<close>.
\<close>

definition grads_closure :: "real list list list \<Rightarrow> real list" where
  "grads_closure r =
     map (\<lambda>conf. sum_list (map (\<lambda>row. - sum_list (map (\<lambda>x. x ^ 2) row)) conf)) r"

text \<open>
  \<open>VMC.grads\<close>: the jax backend replaced \<open>grads_closure\<close> by the autodiff version,
  taken as the parameter \<open>grads_closure_jax\<close>.
\<close>

definition VMC_grads ::
  "(real list list list \<Rightarrow> real list \<Rightarrow> error + real list) \<Rightarrow> VMC \<Rightarrow> real list list list \<Rightarrow>
     error + real list" where
  "VMC_grads grads_closure_jax alg r =
     (if vmc_backend alg = ''jax'' then grads_closure_jax r (params_alpha alg)
      else Inr (grads_closure r))"

section \<open>The orchestrator (qs/quantum_state.py)\<close>

datatype hamiltonian_choice = HO | EO

datatype sampler_choice = MetroHastings

text \<open>
  The attributes of \<open>QS\<close> the modelled methods read or write. An attribute that is
  created only by a later setup call is an option, \<open>None\<close> while it does not exist.
  \<open>qs_optimizer\<close> holds the learning rate of the \<open>Gd\<close> object.
\<close>

record QS =
  qs_backend :: string
  qs_init_alpha :: "real option"
  qs_alg :: "VMC option"
  qs_alpha :: "real list option"
  qs_hamiltonian :: "hamiltonian_choice option"
  qs_mcmc_alg :: "string option"
  qs_sampler :: "sampler_choice option"
  qs_eta :: "real option"
  qs_optimizer :: "real option"
  qs_training :: "(int \<times> int) option"
  is_initialized :: bool
  is_trained :: bool

text \<open>
  \<open>QS.__init__\<close>: the attributes, then the \<open>match backend\<close> statement. The logging
  arguments are of the types \<open>_check_logger\<close> asks for.
\<close>

definition QS_init :: "string \<Rightarrow> real option \<Rightarrow> error + QS" where
  "QS_init backend alpha =
     (if backend = ''numpy'' \<or> backend = ''jax''
      then Inr \<lparr>qs_backend = backend, qs_init_alpha = alpha, qs_alg = None, qs_alpha = None,
                qs_hamiltonian = None, qs_mcmc_alg = None, qs_sampler = None, qs_eta = None,
                qs_optimizer = None, qs_training = None, is_initialized = False,
                is_trained = False\<rparr>
      else Inl (ValueError ''Invalid backend:''))"

text \<open>
  \<open>QS.set_wf\<close>: builds the model with the stored backend and initial \<open>alpha\<close>, copies
  its parameter into \<open>self.alpha\<close>, then checks the wave function type.
\<close>

definition set_wf :: "QS \<Rightarrow> string \<Rightarrow> nat \<Rightarrow> nat \<Rightarrow> real list list \<Rightarrow> error + QS" where
  "set_wf q wf_type nparticles ndim initial_positions =
     (case VMC_init (qs_backend q) (qs_init_alpha q) None nparticles ndim initial_positions of
        Inl e \<Rightarrow> Inl e
      | Inr alg \<Rightarrow>
          if wf_type = ''vmc''
          then Inr (q\<lparr>qs_alg := Some alg, qs_alpha := Some (params_alpha alg),
                      is_initialized := True\<rparr>)
          else Inl (ValueError ''Invalid wave function type, should be vmc''))"

text \<open>
  \<open>QS.set_hamiltonian\<close>: reads \<open>self.alg\<close> (an \<open>AttributeError\<close> before \<open>set_wf\<close>),
  then dispatches on the name. The Hamiltonian classes are outside the modelled files;
  the choice made is what is stored. The interaction type is only handed on to the
  Hamiltonian and plays no part in the dispatch.
\<close>

definition set_hamiltonian :: "QS \<Rightarrow> string \<Rightarrow> error + QS" where
  "set_hamiltonian q htype =
     (case qs_alg q of
        None \<Rightarrow> Inl (AttributeError ''alg'')
      | Some alg \<Rightarrow>
          if htype = ''ho'' then Inr (q\<lparr>qs_hamiltonian := Some HO\<rparr>)
          else if htype = ''eo'' then Inr (q\<lparr>qs_hamiltonian := Some EO\<rparr>)
          else Inl (ValueError ''Invalid Hamiltonian type, should be ho o eo''))"

text \<open>
  \<open>QS.set_sampler\<close>. The branch for \<open>"m"\<close> calls the Metropolis constructor with
  eleven positional arguments, while \<open>Metropolis.__init__\<close> accepts at most ten besides
  \<open>self\<close>, so the call itself raises \<open>TypeError\<close>. The Metropolis-Hastings class is
  outside the modelled files; the choice made is what is stored. The proposal scale is
  only handed on to the sampler and plays no part in the dispatch.
\<close>

definition set_sampler :: "QS \<Rightarrow> string \<Rightarrow> error + QS" where
  "set_sampler q mcmc_alg =
     (case qs_alg q of
        None \<Rightarrow> Inl (AttributeError ''alg'')
      | Some alg \<Rightarrow>
          if mcmc_alg = ''m''
          then Inl (TypeError ''__init__() takes from 8 to 11 positional arguments but 12 were given'')
          else if mcmc_alg = ''mh''
          then Inr (q\<lparr>qs_mcmc_alg := Some mcmc_alg, qs_sampler := Some MetroHastings\<rparr>)
          else Inl (ValueError ''Invalid MCMC algorithm type, should be m or mh''))"

text \<open>\<open>QS.set_optimizer\<close>.\<close>

definition set_optimizer :: "QS \<Rightarrow> string \<Rightarrow> real \<Rightarrow> error + QS" where
  "set_optimizer q optimizer eta =
     (if optimizer = ''gd'' then Inr (q\<lparr>qs_eta := Some eta, qs_optimizer := Some eta\<rparr>)
      else Inl (ValueError ''Invalid optimizer type, should be gd''))"

text \<open>
  Modelled from the spec: the gradient-descent optimizer \<open>Gd.step\<close> of
  \<open>optimizers/gd.py\<close>, which is not among the source files. The spec gives plain
  gradient descent, \<open>updated = current - eta * gradientEstimate\<close>.
\<close>

definition Gd_step :: "real \<Rightarrow> real list \<Rightarrow> real list \<Rightarrow> error + real list" where
  "Gd_step eta current grad = bcast2 (-) current (map (\<lambda>g. eta * g) grad)"

text \<open>
  \<open>QS.sample\<close>: the initialisation check, the attributes read for the run's record,
  then \<open>self.sampler.sample(nsamples, nchains)\<close>. The base sampler's \<open>sample\<close> is
  outside the modelled files and is the parameter \<open>sampler_sample\<close>: from the model's
  chain state it returns the chain state it leaves behind and the sampled
  configurations. By the spec the sampler never writes the variational parameters.
\<close>

definition QS_sample ::
  "(State \<Rightarrow> int \<Rightarrow> int \<Rightarrow> error + State \<times> real list list list) \<Rightarrow> QS \<Rightarrow> int \<Rightarrow> int \<Rightarrow>
     error + QS \<times> real list list list" where
  "QS_sample sampler_sample q nsamples nchains =
     (if is_initialized q then
        (case qs_alg q of
           None \<Rightarrow> Inl (AttributeError ''alg'')
         | Some alg \<Rightarrow>
        (case qs_eta q of
           None \<Rightarrow> Inl (AttributeError ''_eta'')
         | Some eta \<Rightarrow>
        (case qs_training q of
           None \<Rightarrow> Inl (AttributeError ''_training_cycles'')
         | Some t \<Rightarrow>
        (case qs_sampler q of
           None \<Rightarrow> Inl (AttributeError ''sampler'')
         | Some s \<Rightarrow>
        (case sampler_sample (vmc_state alg) nsamples nchains of
           Inl e \<Rightarrow> Inl e
         | Inr (st, sampled_positions) \<Rightarrow>
             Inr (q\<lparr>qs_alg := Some (alg\<lparr>vmc_state := st\<rparr>)\<rparr>, sampled_positions))))))
      else Inl (NotInitialized ''A call to init must be made before training''))"

text \<open>
  One pass of the loop of \<open>QS.train\<close>: sample a batch, \<open>self.alg.grads\<close> of the sampled
  positions, and \<open>self.alpha = backend.array(self._optimizer.step(self.alpha,
  grads_alpha))\<close>. The assignment is to the orchestrator's own attribute; the source's
  next line, which would store it in the model, is commented out.
\<close>

definition train_iteration ::
  "(State \<Rightarrow> int \<Rightarrow> int \<Rightarrow> error + State \<times> real list list list) \<Rightarrow>
     (real list list list \<Rightarrow> real list \<Rightarrow> error + real list) \<Rightarrow> int \<Rightarrow> QS \<Rightarrow> error + QS" where
  "train_iteration sampler_sample grads_closure_jax batch_size q =
     (case QS_sample sampler_sample q batch_size 1 of
        Inl e \<Rightarrow> Inl e
      | Inr (q1, sampled_positions) \<Rightarrow>
     (case qs_alg q1 of
        None \<Rightarrow> Inl (AttributeError ''alg'')
      | Some alg \<Rightarrow>
     (case VMC_grads grads_closure_jax alg sampled_positions of
        Inl e \<Rightarrow> Inl e
      | Inr grads_alpha \<Rightarrow>
     (case qs_optimizer q1 of
        None \<Rightarrow> Inl (AttributeError ''step'')
      | Some eta \<Rightarrow>
     (case qs_alpha q1 of
        None \<Rightarrow> Inl (AttributeError ''alpha'')
      | Some a \<Rightarrow>
     (case Gd_step eta a grads_alpha of
        Inl e \<Rightarrow> Inl e
      | Inr a' \<Rightarrow> Inr (q1\<lparr>qs_alpha := Some a'\<rparr>)))))))"

fun train_loop ::
  "(State \<Rightarrow> int \<Rightarrow> int \<Rightarrow> error + State \<times> real list list list) \<Rightarrow>
     (real list list list \<Rightarrow> real list \<Rightarrow> error + real list) \<Rightarrow> int \<Rightarrow> nat \<Rightarrow> QS \<Rightarrow> error + QS" where
  "train_loop smp gj batch_size 0 q = Inr q"
| "train_loop smp gj batch_size (Suc k) q =
     (case train_iteration smp gj batch_size q of
        Inl e \<Rightarrow> Inl e
      | Inr q' \<Rightarrow> train_loop smp gj batch_size k q')"

text \<open>\<open>QS.train(max_iter, batch_size, seed)\<close>: \<open>range(max_iter)\<close> passes of the loop.\<close>

definition train ::
  "(State \<Rightarrow> int \<Rightarrow> int \<Rightarrow> error + State \<times> real list list list) \<Rightarrow>
     (real list list list \<Rightarrow> real list \<Rightarrow> error + real list) \<Rightarrow> int \<Rightarrow> int \<Rightarrow> QS \<Rightarrow> error + QS" where
  "train sampler_sample grads_closure_jax max_iter batch_size q =
     (if is_initialized q then
        (case train_loop sampler_sample grads_closure_jax batch_size (nat max_iter)
                (q\<lparr>qs_training := Some (max_iter, batch_size)\<rparr>) of
           Inl e \<Rightarrow> Inl e
         | Inr q' \<Rightarrow> Inr (q'\<lparr>is_trained := True\<rparr>))
      else Inl (NotInitialized ''A call to init must be made before training''))"

section \<open>Concrete inputs for the worked examples\<close>

text \<open>
  A small deterministic random library: keys and generators are integers, the normal
  draw shifts every coordinate by the scale and the uniform draw is constantly one half.
\<close>

definition example_lib :: "(int, int) rng_lib" where
  "example_lib =
     \<lparr>advance_PRNG_state = (\<lambda>seed d. seed + d),
      rng_normal = (\<lambda>g loc sc. (map (map (\<lambda>x. x + sc)) loc, g + 1)),
      rng_random = (\<lambda>g n. (replicate n (1 / 2), g + 1))\<rparr>"

text \<open>
  The two-particle sampler that \<open>Metropolis.__init__\<close> returns for a backend name
  when the base constructor stores the name as given.
\<close>

definition example_sampler :: "string \<Rightarrow> (int, int) Metropolis" where
  "example_sampler b =
     \<lparr>m_seed = 7, m_N = 2, m_dim = 2, m_rng = (\<lambda>k. k), m_scale = 1, m_backend = b,
      accept_fn = Metropolis_dispatch b\<rparr>"

text \<open>A log-probability that is zero everywhere, so that every proposal is accepted.\<close>

definition flat_wf :: "real list list \<Rightarrow> error + real list" where
  "flat_wf r = Inr (map (\<lambda>row. 0) r)"

text \<open>The log-probability \<open>VMC.prob\<close> of a model whose stored parameter is \<open>0.5\<close>.\<close>

definition example_prob :: "real list list \<Rightarrow> error + real list" where
  "example_prob r = prob_closure r [1 / 2]"

text \<open>
  A library whose key derivation reads and advances a shared counter, against which the
  explicit-state step can be compared.
\<close>

definition leaky_lib :: "(int, int, int) shared_rng_lib" where
  "leaky_lib =
     \<lparr>sh_advance = (\<lambda>seed d w. (seed + d + w, w + 1)),
      sh_ctor = (\<lambda>k w. (k, w)),
      sh_normal = (\<lambda>g loc sc w. ((map (map (\<lambda>x. x + of_int g)) loc, g + 1), w)),
      sh_random = (\<lambda>g n w. ((replicate n (1 / 2), g + 1), w))\<rparr>"

text \<open>A sampler run that leaves the chain where it is and returns one configuration.\<close>

definition example_sample :: "State \<Rightarrow> int \<Rightarrow> int \<Rightarrow> error + State \<times> real list list list" where
  "example_sample st nsamples nchains = Inr (st, [[[1, 0, 0]]])"

text \<open>
  An orchestrator after \<open>set_wf("vmc", 1, 3)\<close>, \<open>set_hamiltonian("ho")\<close>,
  \<open>set_sampler("mh")\<close> and \<open>set_optimizer("gd", 0.1)\<close> on the numpy backend with
  initial \<open>alpha = 0.5\<close> and the single particle at \<open>(1, 0, 0)\<close>.
\<close>

definition example_qs :: QS where
  "example_qs =
     \<lparr>qs_backend = ''numpy'', qs_init_alpha = Some (1 / 2),
      qs_alg = Some \<lparr>vmc_backend = ''numpy'', params_alpha = [1 / 2], vmc_beta = None,
                     vmc_N = 1, vmc_dim = 3,
                     vmc_state = \<lparr>positions = [[1, 0, 0]], logp = Arr1 [- 1],
                                  n_accepted = 0, delta = 0\<rparr>\<rparr>,
      qs_alpha = Some [1 / 2], qs_hamiltonian = Some HO, qs_mcmc_alg = Some ''mh'',
      qs_sampler = Some MetroHastings, qs_eta = Some (1 / 10),
      qs_optimizer = Some (1 / 10), qs_training = None, is_initialized = True,
      is_trained = False\<rparr>"

section \<open>Helper lemmas on arrays\<close>

lemma chunks_concat:
  "list_all (\<lambda>row. length row = d) r \<Longrightarrow> chunks (length r) d (concat r) = r"
  by (induction r) simp_all

lemma length_concat_rows:
  "list_all (\<lambda>row. length row = d) r \<Longrightarrow> length (concat r) = length r * d"
  by (induction r) simp_all

lemma reshape_rows_id:
  assumes "0 < d" and "list_all (\<lambda>row. length row = d) r"
  shows "reshape_rows d r = Inr r"
  using assms by (simp add: reshape_rows_def length_concat_rows chunks_concat)

lemma bcast2_scalar_left:
  "bcast2 f [a] ys = Inr (map (f a) ys)"
  by (cases ys rule: list.exhaust; cases "tl ys") (auto simp: bcast2_def)

lemma bcast2_scalar_right:
  "bcast2 f xs [b] = Inr (map (\<lambda>x. f x b) xs)"
  by (cases xs rule: list.exhaust; cases "tl xs") (auto simp: bcast2_def)

section \<open>The wavefunction model: results\<close>

text \<open>
  C9. The log-probability is twice the log-amplitude, entry by entry over the
  per-particle array: whenever \<open>wf_closure\<close> returns an array, \<open>prob_closure\<close>
  returns an array of the same length whose entry \<open>i\<close> is twice entry \<open>i\<close> of the
  log-amplitude, and whenever \<open>wf_closure\<close> raises, \<open>prob_closure\<close> raises the same
  error.
\<close>

theorem prob_closure_twice_wf_closure:
  "(\<forall>w. wf_closure r alpha = Inr w \<longrightarrow>
      (\<exists>p. prob_closure r alpha = Inr p \<and> length p = length w \<and>
           (\<forall>i<length w. p ! i = 2 * w ! i))) \<and>
   (\<forall>e. wf_closure r alpha = Inl e \<longrightarrow> prob_closure r alpha = Inl e)"
  by (simp add: prob_closure_def)

theorem prob_closure_twice_wf_closure_witness:
  "wf_closure [[1, 2], [0, 3]] [1 / 2] = Inr [- 5 / 2, - 9 / 2] \<and>
   prob_closure [[1, 2], [0, 3]] [1 / 2] = Inr [- 5, - 9]"
proof -
  have w: "wf_closure [[1, 2], [0, 3]] [1 / 2] = Inr [- 5 / 2, - 9 / 2]"
    by (simp add: wf_closure_def bcast2_def sum_sq_axis1_def)
  from prob_closure_twice_wf_closure [of "[[1, 2], [0, 3]]" "[1 / 2]"] w
  obtain p where p: "prob_closure [[1, 2], [0, 3]] [1 / 2] = Inr p"
    and l: "length p = 2" and e: "\<forall>i<2. p ! i = 2 * [- 5 / 2, - 9 / 2 :: real] ! i"
    by auto
  from e have "p ! 0 = - 5" and "p ! 1 = - 9" by simp_all
  with l have "p = [- 5, - 9]"
    by (cases p; cases "tl p"; cases "tl (tl p)") auto
  with p w show ?thesis by simp
qed

text \<open>
  C5. For a configuration of \<open>N\<close> rows of \<open>D\<close> coordinates each (\<open>D\<close> the model's
  positive dimensionality) and a single parameter \<open>a\<close>, the analytic Laplacian is the
  sum over the particles of \<open>4 a\<^sup>2 \<Sigma>\<^sub>d r\<^sub>i\<^sub>d\<^sup>2 - 2 a D\<close>.
\<close>

theorem laplacian_closure_formula:
  assumes "0 < ndim" and "list_all (\<lambda>row. length row = ndim) r"
  shows "laplacian_closure ndim r [a] =
           Inr (\<Sum>row\<leftarrow>r. 4 * a ^ 2 * (\<Sum>x\<leftarrow>row. x ^ 2) - 2 * a * real ndim)"
proof -
  have "laplacian_closure ndim r [a] =
          Inr (sum_list (map (\<lambda>x. x - 2 * a * real ndim)
                 (map ((*) (4 * a ^ 2)) (sum_sq_axis1 r))))"
    using assms
    by (simp add: laplacian_closure_def reshape_rows_id bcast2_scalar_left
        bcast2_scalar_right)
  also have "sum_list (map (\<lambda>x. x - 2 * a * real ndim)
                 (map ((*) (4 * a ^ 2)) (sum_sq_axis1 r))) =
             (\<Sum>row\<leftarrow>r. 4 * a ^ 2 * (\<Sum>x\<leftarrow>row. x ^ 2) - 2 * a * real ndim)"
    by (simp add: sum_sq_axis1_def comp_def)
  finally show ?thesis .
qed

theorem laplacian_closure_formula_witness:
  "laplacian_closure 3 [[1, 0, 0], [0, 1, 0]] [1 / 2] = Inr (- 4)"
proof -
  have "laplacian_closure 3 [[1, 0, 0], [0, 1, 0]] [1 / 2] =
          Inr (\<Sum>row\<leftarrow>[[1, 0, 0], [0, 1, 0]].
                 4 * (1 / 2) ^ 2 * (\<Sum>x\<leftarrow>row. x ^ 2) - 2 * (1 / 2) * real 3)"
    by (rule laplacian_closure_formula) simp_all
  then show ?thesis by (simp add: power2_eq_square)
qed

section \<open>The model object: results\<close>

text \<open>
  C10. A model constructed on a supported backend with the argument \<open>alpha\<close> equal to
  \<open>0.0\<close>, or with no \<open>alpha\<close> at all, stores the default \<open>0.5\<close> as its variational
  parameter: the constructor tests the truthiness of the argument, so an explicit zero
  is replaced by the default.
\<close>

theorem VMC_init_alpha_zero_defaults:
  assumes "alpha = None \<or> alpha = Some 0"
    and "backend = ''numpy'' \<or> backend = ''jax''"
  shows "\<exists>v. VMC_init backend alpha beta nparticles ndim initial_positions = Inr v \<and>
             params_alpha v = [1 / 2]"
  using assms
  by (auto simp: VMC_init_def configure_backend_def truthy_def
      initialize_variational_params_def prob_closure_def wf_closure_def bcast2_scalar_left)

theorem VMC_init_alpha_zero_defaults_witness:
  "\<exists>v. VMC_init ''numpy'' (Some 0) None 1 3 [[1, 0, 0]] = Inr v \<and> params_alpha v = [1 / 2]"
  using VMC_init_alpha_zero_defaults [of "Some 0" "''numpy''" None 1 3 "[[1, 0, 0]]"]
  by simp

text \<open>
  For one particle, with a differentiation library that returns the exact second
  derivatives of \<open>self.wf\<close> (whose parameter is the stored \<open>a0\<close>), the autodiff
  Laplacian is \<open>4 a\<^sup>2 \<Sigma> x\<^sup>2 - 2 a0 d\<close>: the analytic value when the argument \<open>a\<close> is the
  stored parameter.
\<close>

lemma laplacian_closure_jax_one_particle:
  assumes "length row = d"
    and "list_all (\<lambda>i. hessian_psi [row] ! i ! i = - 2 * a0) [0..<d]"
  shows "laplacian_closure_jax hessian_psi grad_wf_closure d [row] [a] =
           Inr (4 * a ^ 2 * (\<Sum>x\<leftarrow>row. x ^ 2) - 2 * a0 * real d)"
proof -
  have t: "trace_mat d (hessian_psi [row]) = - 2 * a0 * real d"
  proof -
    have m: "map (\<lambda>i. hessian_psi [row] ! i ! i) [0..<d] = map (\<lambda>i. - 2 * a0) [0..<d]"
      using assms(2) by (simp add: list_all_iff)
    have "trace_mat d (hessian_psi [row]) = sum_list (map (\<lambda>i. - 2 * a0) [0..<d])"
      unfolding trace_mat_def m by (rule refl)
    also have "\<dots> = - 2 * a0 * real d"
      by (simp add: sum_list_triv)
    finally show ?thesis .
  qed
  have g: "grad_wf_closure [row] [a] = Inr [map ((*) (- 2 * a)) row]"
    by (simp add: grad_wf_closure_def bcast2_scalar_left)
  have s: "sum_list (map (\<lambda>x. x ^ 2) (map ((*) (- 2 * a)) row)) =
             4 * a ^ 2 * (\<Sum>x\<leftarrow>row. x ^ 2)"
    by (simp add: comp_def power_mult_distrib sum_list_const_mult)
  show ?thesis
    using assms(1) t g s by (simp add: laplacian_closure_jax_def reshape_1_d_def)
qed

text \<open>
  C6. On two particles in three dimensions the two Laplacian implementations do not
  agree: the analytic one returns the sum over both particles, the autodiff one raises
  at its \<open>reshape(1, d)\<close>, whatever the differentiation library computes.
\<close>

theorem laplacian_backends_differ:
  "laplacian_closure 3 [[1, 2, 2], [0, 1, 0]] [1 / 2] = Inr 4 \<and>
   laplacian_closure_jax hessian_psi grad_wf 3 [[1, 2, 2], [0, 1, 0]] [1 / 2] =
     Inl (TypeError ''cannot reshape array'')"
  by (simp add: laplacian_closure_def reshape_rows_def bcast2_def sum_sq_axis1_def
      laplacian_closure_jax_def reshape_1_d_def numeral_2_eq_2 power2_eq_square)

section \<open>The Metropolis sampler: results\<close>

lemma assign_row_same: "length src = length dst \<Longrightarrow> assign_row dst src = Inr src"
  by (simp add: assign_row_def)

text \<open>
  The loop of \<open>accept_numpy\<close> started at index \<open>k\<close>, on arrays of matching shapes:
  rows and entries below \<open>k\<close> are kept, those from \<open>k\<close> on are selected by the mask,
  and the counter grows by the number of accepted particles from \<open>k\<close> on.
\<close>

lemma accept_numpy_loop_inv:
  assumes "length a = N" "length ip = N" "length pp = N" "length lc = N" "length lp = N"
    and "length P = N" "length L = N" "k \<le> N"
    and "\<forall>i<N. length (pp ! i) = length (ip ! i)"
    and "\<forall>i<N. length (P ! i) = length (ip ! i)"
  shows "accept_numpy_loop a ip pp lc lp [k..<N] (P, L, n) =
           Inr (take k P @ map (\<lambda>i. if a ! i then pp ! i else ip ! i) [k..<N],
                take k L @ map (\<lambda>i. if a ! i then lp ! i else lc ! i) [k..<N],
                n + int (length (filter id (drop k a))))"
  using assms
proof (induction "N - k" arbitrary: k P L n)
  case 0
  then show ?case by simp
next
  case (Suc m)
  then have kN: "k < N" by simp
  have m: "m = N - Suc k" using Suc.hyps(2) by simp
  have d: "drop k a = a ! k # drop (Suc k) a"
    using kN Suc.prems(1) by (simp add: Cons_nth_drop_Suc)
  have rowp: "assign_row (P ! k) (pp ! k) = Inr (pp ! k)"
    using kN Suc.prems(9,10) by (simp add: assign_row_same)
  have rowi: "assign_row (P ! k) (ip ! k) = Inr (ip ! k)"
    using kN Suc.prems(10) by (simp add: assign_row_same)
  have wp: "\<forall>i<N. length (P[k := pp ! k] ! i) = length (ip ! i)"
    using kN Suc.prems(6,9,10) by (simp add: nth_list_update)
  have wi: "\<forall>i<N. length (P[k := ip ! k] ! i) = length (ip ! i)"
    using kN Suc.prems(6,10) by (simp add: nth_list_update)
  show ?case
  proof (cases "a ! k")
    case True
    have b: "accept_numpy_body a ip pp lc lp k (P, L, n) =
               Inr (P[k := pp ! k], L[k := lp ! k], n + 1)"
      using kN Suc.prems(1-8) True rowp by (simp add: accept_numpy_body_def)
    have ih: "accept_numpy_loop a ip pp lc lp [Suc k..<N]
                (P[k := pp ! k], L[k := lp ! k], n + 1) =
              Inr (take (Suc k) (P[k := pp ! k]) @
                     map (\<lambda>i. if a ! i then pp ! i else ip ! i) [Suc k..<N],
                   take (Suc k) (L[k := lp ! k]) @
                     map (\<lambda>i. if a ! i then lp ! i else lc ! i) [Suc k..<N],
                   n + 1 + int (length (filter id (drop (Suc k) a))))"
      using Suc.hyps(1)[OF m] Suc.prems(1-5,9) wp kN Suc.prems(6,7) by simp
    show ?thesis
      using kN Suc.prems(1-8) True b ih d
      by (simp add: upt_conv_Cons take_Suc_conv_app_nth)
  next
    case False
    have b: "accept_numpy_body a ip pp lc lp k (P, L, n) =
               Inr (P[k := ip ! k], L[k := lc ! k], n)"
      using kN Suc.prems(1-8) False rowi by (simp add: accept_numpy_body_def)
    have ih: "accept_numpy_loop a ip pp lc lp [Suc k..<N]
                (P[k := ip ! k], L[k := lc ! k], n) =
              Inr (take (Suc k) (P[k := ip ! k]) @
                     map (\<lambda>i. if a ! i then pp ! i else ip ! i) [Suc k..<N],
                   take (Suc k) (L[k := lc ! k]) @
                     map (\<lambda>i. if a ! i then lp ! i else lc ! i) [Suc k..<N],
                   n + int (length (filter id (drop (Suc k) a))))"
      using Suc.hyps(1)[OF m] Suc.prems(1-5,9) wi kN Suc.prems(6,7) by simp
    show ?thesis
      using kN Suc.prems(1-8) False b ih d
      by (simp add: upt_conv_Cons take_Suc_conv_app_nth)
  qed
qed

text \<open>
  The looped accept function on arrays of matching shapes: row \<open>i\<close> of the new
  configuration is the proposed row when particle \<open>i\<close> is accepted and the current row
  otherwise, likewise for the log-probabilities, and the counter grows by the number of
  accepted particles.
\<close>

lemma accept_numpy_correct:
  assumes "length a = length ip" "length pp = length ip" "length lc = length ip"
    "length lp = length ip"
    and "\<forall>i<length ip. length (pp ! i) = length (ip ! i)"
  shows "accept_numpy n a ip pp lc lp =
           Inr (map (\<lambda>i. if a ! i then pp ! i else ip ! i) [0..<length ip],
                Arr1 (map (\<lambda>i. if a ! i then lp ! i else lc ! i) [0..<length ip]),
                n + int (length (filter id a)))"
  using accept_numpy_loop_inv
    [of a "length ip" ip pp lc lp "zeros_like2 ip" "zeros_like1 lc" 0 n] assms
  by (simp add: accept_numpy_def zeros_like2_def zeros_like1_def)

text \<open>
  The step with the looped accept function, two particles, both accepted, and a counter
  that enters at five: two rows, the counter at seven, \<open>delta\<close> advanced by one.
\<close>

lemma step_numpy_value:
  "step example_lib (example_sampler ''numpy'') 5 flat_wf
     \<lparr>positions = [[1, 0], [0, 2]], logp = Arr1 [0, 0], n_accepted = 5, delta = 0\<rparr> 7 =
   Inr \<lparr>positions = [[2, 1], [1, 3]], logp = Arr1 [0, 0], n_accepted = 7, delta = 1\<rparr>"
  by (simp add: step_def step_draws_def example_lib_def example_sampler_def
      Metropolis_dispatch_def flat_wf_def bcast2_def run_accept_def accept_numpy_def
      accept_numpy_body_def assign_row_def zeros_like1_def zeros_like2_def upt_conv_Cons)

text \<open>
  C2. The same step with the vectorized accept function: the new configuration is a
  single row, the sum of the two accepted proposals, instead of one row per particle;
  the counter is the number accepted in this step, two, instead of five plus two; the
  log-probability is a two-by-two array; \<open>delta\<close> is advanced by one.
\<close>

theorem step_accept_jax_collapses:
  "step example_lib (example_sampler ''jax'') 5 flat_wf
     \<lparr>positions = [[1, 0], [0, 2]], logp = Arr1 [0, 0], n_accepted = 5, delta = 0\<rparr> 7 =
   Inr \<lparr>positions = [[3, 4]], logp = Arr2 [[0, 0], [0, 0]], n_accepted = 2, delta = 1\<rparr>"
  by (simp add: step_def step_draws_def example_lib_def example_sampler_def
      Metropolis_dispatch_def flat_wf_def bcast2_def run_accept_def accept_jax_def
      matmul_row_def ncols_def numeral_2_eq_2)

text \<open>
  C3. On the mask (accept, reject) for two particles the two accept functions return
  different results: the looped one keeps two rows and a one-dimensional
  log-probability, the vectorized one returns one summed row and a two-by-two
  log-probability.
\<close>

theorem accept_backends_differ:
  "accept_numpy 0 [True, False] [[1, 0], [0, 2]] [[5, 6], [7, 8]] [- 1, - 4] [- 61, - 113] =
     Inr ([[5, 6], [0, 2]], Arr1 [- 61, - 4], 1) \<and>
   accept_jax 0 [True, False] [[1, 0], [0, 2]] [[5, 6], [7, 8]] [- 1, - 4] [- 61, - 113] =
     Inr ([[5, 8]], Arr2 [[- 61, - 113], [- 1, - 4]], 1)"
  by (simp add: accept_numpy_def accept_numpy_body_def assign_row_def zeros_like1_def
      zeros_like2_def upt_conv_Cons accept_jax_def matmul_row_def ncols_def bcast2_def
      numeral_2_eq_2)

text \<open>
  The mask of a step whose log-probability arrays and uniform draws have one entry per
  particle: entry \<open>i\<close> is the comparison of the \<open>i\<close>-th uniform draw with
  \<open>exp (prob_proposed\<^sub>i - prob_current\<^sub>i)\<close>.
\<close>

lemma step_draws_mask:
  fixes lib :: "('k, 'g) rng_lib" and self :: "('k, 'g) Metropolis"
    and state :: State and seed :: int
  defines "drawn \<equiv> rng_normal lib (m_rng self (advance_PRNG_state lib seed (delta state)))
                      (positions state) (m_scale self)"
  defines "u \<equiv> fst (rng_random lib (snd drawn) (length (positions state)))"
  assumes "wf_squared (positions state) = Inr pc"
    and "wf_squared (fst drawn) = Inr pp"
    and "length pc = length (positions state)"
    and "length pp = length (positions state)"
    and "length u = length (positions state)"
  shows "step_draws lib self wf_squared state seed =
           Inr (fst drawn, pc, pp,
                map (\<lambda>i. u ! i < exp (pp ! i - pc ! i)) [0..<length (positions state)])"
proof -
  have "map2 (<) u (map exp (map2 (-) pp pc)) =
          map (\<lambda>i. u ! i < exp (pp ! i - pc ! i)) [0..<length (positions state)]"
    using assms(5-7) by (intro nth_equalityI) simp_all
  then show ?thesis
    using assms by (simp add: step_draws_def Let_def bcast2_def)
qed

text \<open>
  The step with the looped accept function honours the mask: row \<open>i\<close> of the new
  state is the proposed row exactly when the \<open>i\<close>-th uniform draw is strictly below
  \<open>exp (prob_proposed\<^sub>i - prob_current\<^sub>i)\<close> and the current row otherwise, the
  log-probability follows, and the counter grows by the number of such particles.
\<close>

lemma step_numpy_per_particle:
  fixes lib :: "('k, 'g) rng_lib" and self :: "('k, 'g) Metropolis"
    and state :: State and seed :: int
  defines "drawn \<equiv> rng_normal lib (m_rng self (advance_PRNG_state lib seed (delta state)))
                      (positions state) (m_scale self)"
  defines "u \<equiv> fst (rng_random lib (snd drawn) (length (positions state)))"
  defines "N \<equiv> length (positions state)"
  assumes "accept_fn self = Some AcceptNumpy"
    and "wf_squared (positions state) = Inr pc"
    and "wf_squared (fst drawn) = Inr pp"
    and "length pc = N" and "length pp = N" and "length u = N"
    and "length (fst drawn) = N"
    and "\<forall>i<N. length (fst drawn ! i) = length (positions state ! i)"
  shows "step lib self n_acc wf_squared state seed =
           Inr \<lparr>positions =
                  map (\<lambda>i. if u ! i < exp (pp ! i - pc ! i) then fst drawn ! i
                           else positions state ! i) [0..<N],
                logp =
                  Arr1 (map (\<lambda>i. if u ! i < exp (pp ! i - pc ! i) then pp ! i
                                 else pc ! i) [0..<N]),
                n_accepted =
                  n_acc + int (length (filter (\<lambda>i. u ! i < exp (pp ! i - pc ! i)) [0..<N])),
                delta = delta state + 1\<rparr>"
proof -
  let ?c = "\<lambda>i. u ! i < exp (pp ! i - pc ! i)"
  let ?mask = "map ?c [0..<N]"
  have dr: "step_draws lib self wf_squared state seed = Inr (fst drawn, pc, pp, ?mask)"
    using step_draws_mask [of wf_squared state pc lib self seed pp] assms(4-9)
    unfolding drawn_def u_def N_def by simp
  have acc: "accept_numpy n_acc ?mask (positions state) (fst drawn) pc pp =
               Inr (map (\<lambda>i. if ?mask ! i then fst drawn ! i else positions state ! i) [0..<N],
                    Arr1 (map (\<lambda>i. if ?mask ! i then pp ! i else pc ! i) [0..<N]),
                    n_acc + int (length (filter id ?mask)))"
    using accept_numpy_correct [of ?mask "positions state" "fst drawn" pc pp n_acc] assms(7-11)
    unfolding N_def by simp
  have p: "map (\<lambda>i. if ?mask ! i then fst drawn ! i else positions state ! i) [0..<N] =
           map (\<lambda>i. if ?c i then fst drawn ! i else positions state ! i) [0..<N]"
    by (rule map_cong) simp_all
  have l: "map (\<lambda>i. if ?mask ! i then pp ! i else pc ! i) [0..<N] =
           map (\<lambda>i. if ?c i then pp ! i else pc ! i) [0..<N]"
    by (rule map_cong) simp_all
  have c: "length (filter id ?mask) = length (filter ?c [0..<N])"
    by (simp add: filter_map comp_def)
  show ?thesis
    using dr acc assms(4) unfolding p l c
    by (simp add: step_def run_accept_def)
qed

lemma exp_le_half: "x \<le> - 1 \<Longrightarrow> exp x \<le> (1 / 2 :: real)"
proof -
  assume x: "x \<le> - 1"
  have "(2 :: real) \<le> exp 1"
    using exp_ge_add_one_self [of "1 :: real"] by simp
  then have "exp (- 1) \<le> (1 / 2 :: real)"
    by (simp add: exp_minus inverse_eq_divide field_simps)
  moreover have "exp x \<le> exp (- 1 :: real)"
    using x by simp
  ultimately show ?thesis by linarith
qed

text \<open>
  Two particles under the model's log-probability with parameter \<open>0.5\<close>: the first
  proposal keeps its distance from the origin and is accepted, the second moves away
  and is rejected. With the looped accept function the first row moves and the second
  stays.
\<close>

lemma step_numpy_mixed_value:
  "step example_lib (example_sampler ''numpy'') 0 example_prob
     \<lparr>positions = [[- 1, 0], [1, 1]], logp = Arr1 [- 1, - 2], n_accepted = 0, delta = 0\<rparr> 7 =
   Inr \<lparr>positions = [[0, 1], [1, 1]], logp = Arr1 [- 1, - 2], n_accepted = 1, delta = 1\<rparr>"
proof -
  have r: "\<not> (1 / 2 < exp (- 6 :: real))"
    using exp_le_half [of "- 6"] by simp
  show ?thesis
    using r
    by (simp add: step_def step_draws_def example_lib_def example_sampler_def
        Metropolis_dispatch_def example_prob_def prob_closure_def wf_closure_def
        sum_sq_axis1_def bcast2_def run_accept_def accept_numpy_def accept_numpy_body_def
        assign_row_def zeros_like1_def zeros_like2_def upt_conv_Cons)
qed



lemma step_draws_depend_on_key:
  assumes "positions s1 = positions s2"
    and "advance_PRNG_state lib seed1 (delta s1) = advance_PRNG_state lib seed2 (delta s2)"
  shows "step_draws lib self wf_squared s1 seed1 = step_draws lib self wf_squared s2 seed2"
  unfolding step_draws_def assms by (rule refl)


text \<open>
  With a key derivation that reads a shared counter, the same call on the same chain
  state returns different states from different shared states.
\<close>

lemma step_shared_leaky_differs:
  "fst (step_shared leaky_lib (example_sampler ''numpy'') 0 flat_wf
          \<lparr>positions = [[1, 0], [0, 2]], logp = Arr1 [0, 0], n_accepted = 0, delta = 0\<rparr> 7 0) \<noteq>
   fst (step_shared leaky_lib (example_sampler ''numpy'') 0 flat_wf
          \<lparr>positions = [[1, 0], [0, 2]], logp = Arr1 [0, 0], n_accepted = 0, delta = 0\<rparr> 7 1)"
  by (simp add: step_shared_def leaky_lib_def example_sampler_def Metropolis_dispatch_def
      flat_wf_def bcast2_def run_accept_def accept_numpy_def accept_numpy_body_def
      assign_row_def zeros_like1_def zeros_like2_def upt_conv_Cons)



section \<open>Setup operations: results\<close>

text \<open>
  Whatever the base constructor does with an unsupported name, the sampler's own
  dispatch adds no error: when the base constructor stores a name that is neither
  \<open>numpy\<close> nor \<open>jax\<close>, construction succeeds with no accept function, and a step
  whose draws succeed raises.
\<close>

lemma Metropolis_init_unsupported:
  "Sampler_init backend = Inr b \<Longrightarrow> b \<noteq> ''numpy'' \<Longrightarrow> b \<noteq> ''jax'' \<Longrightarrow>
   \<exists>m. Metropolis_init Sampler_init rng scale n ndim seed backend = Inr m \<and>
       accept_fn m = None"
  by (simp add: Metropolis_init_def Metropolis_dispatch_def)

lemma example_sampler_constructed:
  "Metropolis_init Inr (\<lambda>k. k) 1 2 2 7 b = Inr (example_sampler b)"
  by (simp add: Metropolis_init_def example_sampler_def)

lemma step_without_accept_fn:
  "accept_fn self = None \<Longrightarrow> step_draws lib self wf_squared state seed = Inr d \<Longrightarrow>
   step lib self n_acc wf_squared state seed = Inl (AttributeError ''accept_fn'')"
  by (cases d) (auto simp: step_def)




section \<open>The training loop: results\<close>

text \<open>Sampling and training never change the parameters stored in the model.\<close>

lemma QS_sample_keeps_params:
  "QS_sample smp q n c = Inr (q', sp) \<Longrightarrow>
   map_option params_alpha (qs_alg q') = map_option params_alpha (qs_alg q)"
  by (auto simp: QS_sample_def split: if_splits option.splits sum.splits)

lemma train_iteration_keeps_params:
  "train_iteration smp gj b q = Inr q' \<Longrightarrow>
   map_option params_alpha (qs_alg q') = map_option params_alpha (qs_alg q)"
  by (auto simp: train_iteration_def split: option.splits sum.splits prod.splits
      dest!: QS_sample_keeps_params)

lemma train_loop_keeps_params:
  "train_loop smp gj b k q = Inr q' \<Longrightarrow>
   map_option params_alpha (qs_alg q') = map_option params_alpha (qs_alg q)"
proof (induction k arbitrary: q)
  case 0
  then show ?case by simp
next
  case (Suc k)
  then show ?case
    by (auto split: sum.splits dest!: train_iteration_keeps_params)
qed

lemma train_keeps_params:
  "train smp gj max_iter b q = Inr q' \<Longrightarrow>
   map_option params_alpha (qs_alg q') = map_option params_alpha (qs_alg q)"
  by (auto simp: train_def split: if_splits sum.splits dest!: train_loop_keeps_params)

text \<open>The example orchestrator is what the setup calls produce.\<close>

lemma example_qs_setup:
  "(case QS_init ''numpy'' (Some (1 / 2)) of Inl e \<Rightarrow> Inl e | Inr q0 \<Rightarrow>
     (case set_wf q0 ''vmc'' 1 3 [[1, 0, 0]] of Inl e \<Rightarrow> Inl e | Inr q1 \<Rightarrow>
       (case set_hamiltonian q1 ''ho'' of Inl e \<Rightarrow> Inl e | Inr q2 \<Rightarrow>
         (case set_sampler q2 ''mh'' of Inl e \<Rightarrow> Inl e | Inr q3 \<Rightarrow>
            set_optimizer q3 ''gd'' (1 / 10))))) = Inr example_qs"
  by (simp add: QS_init_def set_wf_def VMC_init_def configure_backend_def truthy_def
      initialize_variational_params_def prob_closure_def wf_closure_def bcast2_def
      sum_sq_axis1_def set_hamiltonian_def set_sampler_def set_optimizer_def example_qs_def)

text \<open>
  C1. One training iteration with learning rate \<open>0.1\<close> on a batch holding the
  configuration \<open>(1, 0, 0)\<close>: the optimizer step produces \<open>0.6\<close>, which is stored in
  the orchestrator's own attribute, while the parameter stored in the model is still
  \<open>0.5\<close>, so the next iteration samples under the old parameter.
\<close>

theorem train_leaves_model_parameters:
  "train example_sample gj 1 1 example_qs =
     Inr (example_qs\<lparr>qs_alpha := Some [3 / 5], qs_training := Some (1, 1),
                     is_trained := True\<rparr>) \<and>
   map_option params_alpha
     (qs_alg (example_qs\<lparr>qs_alpha := Some [3 / 5], qs_training := Some (1, 1),
                          is_trained := True\<rparr>)) = Some [1 / 2]"
  by (simp add: train_def train_iteration_def QS_sample_def example_sample_def
      example_qs_def VMC_grads_def grads_closure_def Gd_step_def bcast2_def)

end
